theory Spec2Isabelle
  imports Complex_Main
begin

section \<open>The parsed document tree\<close>

text \<open>
  The nodes of a parsed JSON-with-comments document, as the interface \<^verbatim>\<open>Node\<close> of the
  parser declares them: a type tag, an optional value, an offset and a length into the
  source text, and an optional ordered list of children.  Strings are lists of code
  units; the model covers the code units up to 0xFF.
\<close>

datatype nodeType = Object | Array | Property | String | Number | Boolean | Null

datatype jvalue = JString string | JNumber rat | JBoolean bool | JNull

datatype node =
  Node (ntype: nodeType) (nvalue: "jvalue option") (offset: nat) (nlength: nat)
       (children: "node list option")

text \<open>
  \<^verbatim>\<open>xs?.[i]\<close>: the element at index \<open>i\<close> of an optional array, \<^verbatim>\<open>undefined\<close> when the
  array is absent or the index is not one of its indices.
\<close>

definition elementAt :: "node list option \<Rightarrow> int \<Rightarrow> node option" where
  "elementAt xs i =
     (case xs of
        None \<Rightarrow> None
      | Some cs \<Rightarrow> if 0 \<le> i \<and> i < int (length cs) then Some (cs ! nat i) else None)"

text \<open>
  A node reference is a root together with the child indices leading to the node; the
  \<^verbatim>\<open>parent\<close> link of a node is the reference with the last index removed.
\<close>

type_synonym nodeRef = "node \<times> nat list"

fun nodeAt :: "node \<Rightarrow> nat list \<Rightarrow> node option" where
  "nodeAt n [] = Some n"
| "nodeAt n (i # is) =
     (case elementAt (children n) (int i) of
        None \<Rightarrow> None
      | Some c \<Rightarrow> nodeAt c is)"

definition deref :: "nodeRef \<Rightarrow> node option" where
  "deref r = nodeAt (fst r) (snd r)"

definition parent :: "nodeRef \<Rightarrow> nodeRef option" where
  "parent r = (if snd r = [] then None else Some (fst r, butlast (snd r)))"

section \<open>String primitives of the host language\<close>

text \<open>\<^verbatim>\<open>s.split(c)\<close> for a one-character separator.\<close>

fun split :: "char \<Rightarrow> string \<Rightarrow> string list" where
  "split c [] = [[]]"
| "split c (x # xs) =
     (if x = c then [] # split c xs
      else (case split c xs of
              [] \<Rightarrow> [[x]]
            | w # ws \<Rightarrow> (x # w) # ws))"

text \<open>\<^verbatim>\<open>s.startsWith(p)\<close>.\<close>

definition startsWith :: "string \<Rightarrow> string \<Rightarrow> bool" where
  "startsWith s p = (take (length p) s = p)"

text \<open>
  \<^verbatim>\<open>parseInt(s)\<close> with no radix: leading white space is skipped, one sign is read, a
  prefix \<^verbatim>\<open>0x\<close> or \<^verbatim>\<open>0X\<close> selects radix 16, and the longest run of digits of the radix
  is the number; \<open>None\<close> is \<^verbatim>\<open>NaN\<close>.  The result is the mathematical integer: the
  host's numbers are exact below \<open>2 ^ 53\<close>, arrays are shorter than \<open>2 ^ 32\<close>, and
  rounding a larger integer keeps it at or above \<open>2 ^ 53\<close>, so every comparison with
  an array length and every array access below agree with the host's.  Negative zero
  is \<open>0\<close>: it compares and indexes as zero does.
\<close>

definition isStrWhiteSpaceChar :: "char \<Rightarrow> bool" where
  "isStrWhiteSpaceChar c =
     ((of_char c :: nat) \<in> {0x09, 0x0A, 0x0B, 0x0C, 0x0D, 0x20, 0xA0})"

definition digitValue :: "char \<Rightarrow> nat option" where
  "digitValue c =
     (let k = (of_char c :: nat) in
      if 48 \<le> k \<and> k \<le> 57 then Some (k - 48)
      else if 97 \<le> k \<and> k \<le> 122 then Some (k - 87)
      else if 65 \<le> k \<and> k \<le> 90 then Some (k - 55)
      else None)"

definition isRadixDigit :: "nat \<Rightarrow> char \<Rightarrow> bool" where
  "isRadixDigit R c = (case digitValue c of None \<Rightarrow> False | Some v \<Rightarrow> v < R)"

definition mathInt :: "nat \<Rightarrow> string \<Rightarrow> nat" where
  "mathInt R Z = foldl (\<lambda>acc c. acc * R + the (digitValue c)) 0 Z"

definition parseInt :: "string \<Rightarrow> int option" where
  "parseInt inputString =
     (let S = dropWhile isStrWhiteSpaceChar inputString;
          sign = (if S \<noteq> [] \<and> hd S = CHR ''-'' then - 1 else (1::int));
          S1 = (if S \<noteq> [] \<and> (hd S = CHR ''+'' \<or> hd S = CHR ''-'') then tl S else S);
          hex = (2 \<le> length S1 \<and> (take 2 S1 = ''0x'' \<or> take 2 S1 = ''0X''));
          R = (if hex then 16 else 10);
          S2 = (if hex then drop 2 S1 else S1);
          Z = takeWhile (isRadixDigit R) S2
      in if Z = [] then None else Some (sign * int (mathInt R Z)))"

section \<open>Property lookup and the pointer walk\<close>

text \<open>
  \<^verbatim>\<open>findProperty(node, key)\<close>: the loop over the children of an object node, returning
  at the first property whose key node carries the string \<open>key\<close>.
\<close>

fun findPropertyLoop :: "node list \<Rightarrow> string \<Rightarrow> node option" where
  "findPropertyLoop [] key = None"
| "findPropertyLoop (child # rest) key =
     (if ntype child = Property \<and> children child \<noteq> None \<and> 0 < length (the (children child))
      then (let keyNode = the (children child) ! 0 in
            if nvalue keyNode = Some (JString key) then Some child
            else findPropertyLoop rest key)
      else findPropertyLoop rest key)"

definition findProperty :: "node \<Rightarrow> string \<Rightarrow> node option" where
  "findProperty node key =
     (if ntype node \<noteq> Object \<or> children node = None then None
      else findPropertyLoop (the (children node)) key)"

text \<open>
  \<^verbatim>\<open>jsonPointer.split('/').filter(p => p.length > 0)\<close>.
\<close>

definition pathParts :: "string \<Rightarrow> string list" where
  "pathParts jsonPointer = filter (\<lambda>p. 0 < length p) (split CHR ''/'' jsonPointer)"

text \<open>
  One iteration of the loop over the pointer segments, for a current node that is
  defined: the array branch, the object branch and the branch of every other node.
\<close>

definition walkStep :: "node \<Rightarrow> string \<Rightarrow> node option" where
  "walkStep currentNode part =
     (if ntype currentNode = Array then
        (case parseInt part of
           None \<Rightarrow> None
         | Some index \<Rightarrow>
             (case children currentNode of
                None \<Rightarrow> None
              | Some cs \<Rightarrow>
                  if index < int (length cs) then elementAt (Some cs) index else None))
      else if ntype currentNode = Object then
        (case findProperty currentNode part of
           None \<Rightarrow> None
         | Some property \<Rightarrow>
             (case elementAt (children property) 0 of
                Some keyNode \<Rightarrow> Some keyNode
              | None \<Rightarrow> elementAt (children property) 1))
      else None)"

text \<open>The loop: it stops as soon as the current node is absent.\<close>

fun walk :: "node option \<Rightarrow> string list \<Rightarrow> node option" where
  "walk currentNode [] = currentNode"
| "walk None (part # rest) = None"
| "walk (Some n) (part # rest) = walk (walkStep n part) rest"

section \<open>The workspace and the capabilities of the host\<close>

text \<open>
  A workspace folder has a name and a file-system path.  The host is a parameter: the
  list of open folders (which may be undefined), the existence test on paths, the
  directory listing (which may throw), the joining of path segments, the opening of a
  document (which may throw) and the parser (which yields no tree for a text without
  a value).
\<close>

record workspaceFolder =
  folderName :: string
  fsPath :: string

datatype exn = TypeError | HostError

datatype position = Position (line: nat) (character: nat)

datatype range = Range (rangeStart: position) (rangeEnd: position)

datatype location = Location (uri: string) (locRange: range)

record textDocument =
  getText :: string
  positionAt :: "nat \<Rightarrow> position"

record host =
  workspaceFolders :: "workspaceFolder list option"
  existsSync :: "string \<Rightarrow> bool"
  readDirectory :: "string \<Rightarrow> exn + (string \<times> nat) list"
  pathJoin :: "string list \<Rightarrow> string"
  openTextDocument :: "string \<Rightarrow> exn + textDocument"
  parseTree :: "string \<Rightarrow> node option"

text \<open>\<^verbatim>\<open>FileType.Directory\<close> of the host's enumeration of file types.\<close>

definition FileType_Directory :: nat where
  "FileType_Directory = 2"

text \<open>\<^verbatim>\<open>new Location(uri, position)\<close>: the empty range at the position.\<close>

definition locationAt :: "string \<Rightarrow> position \<Rightarrow> location" where
  "locationAt u p = Location u (Range p p)"

section \<open>Resolution of a cross-reference\<close>

definition isMatchingFolder :: "string \<Rightarrow> string \<Rightarrow> bool" where
  "isMatchingFolder domain name =
     (name = domain \<or> startsWith name (domain @ ''_'') \<or> startsWith name (domain @ ''-''))"

text \<open>
  \<^verbatim>\<open>resolveVintageStoryPath\<close>.  The inner loop runs over the entries of one folder,
  the outer loop over the folders; each returns at the first path that exists.  A
  directory listing that throws is caught and the outer loop goes on.
\<close>

fun resolveChildren ::
  "host \<Rightarrow> string \<Rightarrow> string \<Rightarrow> workspaceFolder \<Rightarrow> (string \<times> nat) list \<Rightarrow> string option" where
  "resolveChildren h domain relativePath folder [] = None"
| "resolveChildren h domain relativePath folder ((name, type) # rest) =
     (if type = FileType_Directory \<and> isMatchingFolder domain name then
        (let potentialPath = pathJoin h [fsPath folder, name, ''assets'', domain, relativePath] in
         if existsSync h potentialPath then Some potentialPath
         else resolveChildren h domain relativePath folder rest)
      else resolveChildren h domain relativePath folder rest)"

fun resolveFolders ::
  "host \<Rightarrow> string \<Rightarrow> string \<Rightarrow> workspaceFolder list \<Rightarrow> string option" where
  "resolveFolders h domain relativePath [] = None"
| "resolveFolders h domain relativePath (folder # rest) =
     (if isMatchingFolder domain (folderName folder)
         \<and> existsSync h (pathJoin h [fsPath folder, ''assets'', domain, relativePath])
      then Some (pathJoin h [fsPath folder, ''assets'', domain, relativePath])
      else (case readDirectory h (fsPath folder) of
              Inl e \<Rightarrow> resolveFolders h domain relativePath rest
            | Inr entries \<Rightarrow>
                (case resolveChildren h domain relativePath folder entries of
                   Some potentialPath \<Rightarrow> Some potentialPath
                 | None \<Rightarrow> resolveFolders h domain relativePath rest)))"

definition resolveVintageStoryPath :: "host \<Rightarrow> string \<Rightarrow> string option" where
  "resolveVintageStoryPath h pathStr =
     (let parts = split CHR '':'' pathStr in
      if length parts \<noteq> 2 then None
      else (let domain = parts ! 0; relativePath = parts ! 1 in
            case workspaceFolders h of
              None \<Rightarrow> None
            | Some folders \<Rightarrow> resolveFolders h domain relativePath folders))"

text \<open>\<^verbatim>\<open>checkDomainExists\<close>: the same two loops, testing \<^verbatim>\<open>assets/<domain>\<close>.\<close>

fun existsInChildren ::
  "host \<Rightarrow> string \<Rightarrow> workspaceFolder \<Rightarrow> (string \<times> nat) list \<Rightarrow> bool" where
  "existsInChildren h domain folder [] = False"
| "existsInChildren h domain folder ((name, type) # rest) =
     (if type = FileType_Directory \<and> isMatchingFolder domain name
         \<and> existsSync h (pathJoin h [fsPath folder, name, ''assets'', domain])
      then True
      else existsInChildren h domain folder rest)"

fun existsInFolders :: "host \<Rightarrow> string \<Rightarrow> workspaceFolder list \<Rightarrow> bool" where
  "existsInFolders h domain [] = False"
| "existsInFolders h domain (folder # rest) =
     (if isMatchingFolder domain (folderName folder)
         \<and> existsSync h (pathJoin h [fsPath folder, ''assets'', domain])
      then True
      else (case readDirectory h (fsPath folder) of
              Inl e \<Rightarrow> existsInFolders h domain rest
            | Inr entries \<Rightarrow>
                if existsInChildren h domain folder entries then True
                else existsInFolders h domain rest))"

definition checkDomainExists :: "host \<Rightarrow> string \<Rightarrow> bool" where
  "checkDomainExists h domain =
     (case workspaceFolders h of
        None \<Rightarrow> False
      | Some folders \<Rightarrow> existsInFolders h domain folders)"

section \<open>Resolution of a path property\<close>

text \<open>
  The guarded part of \<^verbatim>\<open>resolvePathDefinition\<close>: the target document is opened and
  parsed, the pointer is walked, and a location is built.  Whatever is thrown here is
  caught and gives no location.
\<close>

definition resolveInTarget :: "host \<Rightarrow> string \<Rightarrow> string \<Rightarrow> location option" where
  "resolveInTarget h targetUri jsonPointer =
     (case openTextDocument h targetUri of
        Inl e \<Rightarrow> None
      | Inr doc \<Rightarrow>
          (case parseTree h (getText doc) of
             None \<Rightarrow> Some (locationAt targetUri (Position 0 0))
           | Some tree \<Rightarrow>
               (case walk (Some tree) (pathParts jsonPointer) of
                  Some currentNode \<Rightarrow>
                    Some (Location targetUri
                           (Range (positionAt doc (offset currentNode))
                                  (positionAt doc (offset currentNode + nlength currentNode))))
                | None \<Rightarrow> Some (locationAt targetUri (Position 0 0)))))"

text \<open>
  \<^verbatim>\<open>resolvePathDefinition(pathNode, jsonPointer)\<close>.  The value of the sibling \<^verbatim>\<open>file\<close>
  is passed on as a string; a value that is no string makes \<^verbatim>\<open>split\<close> throw outside
  the guarded part.
\<close>

definition resolvePathDefinition :: "host \<Rightarrow> nodeRef \<Rightarrow> string \<Rightarrow> exn + location option" where
  "resolvePathDefinition h pathNode jsonPointer =
     (case Option.bind (Option.bind (parent pathNode) parent) deref of
        None \<Rightarrow> Inr None
      | Some parentNode \<Rightarrow>
          if ntype parentNode \<noteq> Object then Inr None
          else
            (case findProperty parentNode ''file'' of
               None \<Rightarrow> Inr None
             | Some fileProperty \<Rightarrow>
                 (case elementAt (children fileProperty) 1 of
                    None \<Rightarrow> Inr None
                  | Some fileValueNode \<Rightarrow>
                      if ntype fileValueNode \<noteq> String then Inr None
                      else
                        (case nvalue fileValueNode of
                           Some (JString fileString) \<Rightarrow>
                             (case resolveVintageStoryPath h fileString of
                                None \<Rightarrow> Inr None
                              | Some targetUri \<Rightarrow> Inr (resolveInTarget h targetUri jsonPointer))
                         | _ \<Rightarrow> Inl TypeError))))"

section \<open>Notions used to state the properties\<close>

text \<open>
  A child of an object node carries the key \<open>key\<close> when it is a property node whose
  first child has the string \<open>key\<close> as its value.
\<close>

definition hasKey :: "node \<Rightarrow> string \<Rightarrow> bool" where
  "hasKey p key =
     (ntype p = Property \<and>
      (case children p of
         Some (k # ks) \<Rightarrow> nvalue k = Some (JString key)
       | _ \<Rightarrow> False))"

text \<open>
  The directories that can own a domain, for one workspace folder and in the order in
  which the loops reach them: the folder itself when its name matches, then the listed
  entries that are directories with a matching name.  Each is given by the path
  segments that are joined.
\<close>

definition ownerDirs :: "host \<Rightarrow> string \<Rightarrow> workspaceFolder \<Rightarrow> string list list" where
  "ownerDirs h domain folder =
     (if isMatchingFolder domain (folderName folder) then [[fsPath folder]] else []) @
     (case readDirectory h (fsPath folder) of
        Inl e \<Rightarrow> []
      | Inr entries \<Rightarrow>
          map (\<lambda>entry. [fsPath folder, fst entry])
            (filter (\<lambda>entry. snd entry = FileType_Directory \<and> isMatchingFolder domain (fst entry))
               entries))"

definition candidates :: "host \<Rightarrow> string \<Rightarrow> string \<Rightarrow> workspaceFolder list \<Rightarrow> string list" where
  "candidates h domain relativePath folders =
     map (\<lambda>dir. pathJoin h (dir @ [''assets'', domain, relativePath]))
       (concat (map (ownerDirs h domain) folders))"

section \<open>The Domain Locator and the resolution as the specification words them\<close>

text \<open>
  Section 4.1 of the specification: step 1 goes through all open folders and tests
  the folder's own name and its \<^verbatim>\<open>assets/<domain>\<close>; only then step 2 goes through the
  immediate subdirectories of all folders.  Section 4.2: the single candidate under
  the directory that the locator returns is tested.  These definitions follow the
  specification, not the source; they are compared with \<open>resolveVintageStoryPath\<close>.
\<close>

definition spec_hasAssets :: "host \<Rightarrow> string \<Rightarrow> string list \<Rightarrow> bool" where
  "spec_hasAssets h domain dir = existsSync h (pathJoin h (dir @ [''assets'', domain]))"

definition spec_subdirectories :: "host \<Rightarrow> string \<Rightarrow> workspaceFolder \<Rightarrow> string list list" where
  "spec_subdirectories h domain folder =
     (case readDirectory h (fsPath folder) of
        Inl e \<Rightarrow> []
      | Inr entries \<Rightarrow>
          map (\<lambda>entry. [fsPath folder, fst entry])
            (filter (\<lambda>entry. snd entry = FileType_Directory \<and> isMatchingFolder domain (fst entry))
               entries))"

definition spec_locateDomain :: "host \<Rightarrow> string \<Rightarrow> workspaceFolder list \<Rightarrow> string list option" where
  "spec_locateDomain h domain folders =
     (case find (\<lambda>folder. isMatchingFolder domain (folderName folder)
                            \<and> spec_hasAssets h domain [fsPath folder]) folders of
        Some folder \<Rightarrow> Some [fsPath folder]
      | None \<Rightarrow>
          find (spec_hasAssets h domain)
            (concat (map (spec_subdirectories h domain) folders)))"

definition spec_resolveReference :: "host \<Rightarrow> string \<Rightarrow> string option" where
  "spec_resolveReference h token =
     (let parts = split CHR '':'' token in
      if length parts \<noteq> 2 then None
      else (let domain = parts ! 0; relativePath = parts ! 1 in
            case workspaceFolders h of
              None \<Rightarrow> None
            | Some folders \<Rightarrow>
                (case spec_locateDomain h domain folders of
                   None \<Rightarrow> None
                 | Some ownerDir \<Rightarrow>
                     (let candidate = pathJoin h (ownerDir @ [''assets'', domain, relativePath]) in
                      if existsSync h candidate then Some candidate else None))))"

section \<open>Concrete documents and workspaces\<close>

text \<open>
  Joining of path segments on a POSIX host, for segments that are not empty and hold
  no \<^verbatim>\<open>.\<close> or \<^verbatim>\<open>..\<close> component and no separator at their ends: the segments with
  \<^verbatim>\<open>/\<close> between them.
\<close>

fun slashJoin :: "string list \<Rightarrow> string" where
  "slashJoin [] = ''.''"
| "slashJoin [p] = p"
| "slashJoin (p # q # ps) = p @ ''/'' @ slashJoin (q # ps)"

text \<open>The tree of the text \<^verbatim>\<open>[1,2]\<close>, and the one-line document holding it.\<close>

definition exPair :: node where
  "exPair =
     Node Array None 0 5
       (Some [Node Number (Some (JNumber 1)) 1 1 None,
              Node Number (Some (JNumber 2)) 3 1 None])"

definition exPairDoc :: textDocument where
  "exPairDoc = \<lparr>getText = ''[1,2]'', positionAt = (\<lambda>k. Position 0 (min k 5))\<rparr>"

text \<open>The tree of the text \<^verbatim>\<open>[1,2,3]\<close>.\<close>

definition exTriple :: node where
  "exTriple =
     Node Array None 0 7
       (Some [Node Number (Some (JNumber 1)) 1 1 None,
              Node Number (Some (JNumber 2)) 3 1 None,
              Node Number (Some (JNumber 3)) 5 1 None])"

text \<open>The tree of the text \<^verbatim>\<open>[{"ingredients": ["a","b"]}]\<close>.\<close>

definition exIngredientsKey :: node where
  "exIngredientsKey = Node String (Some (JString ''ingredients'')) 2 13 None"

definition exIngredientsValue :: node where
  "exIngredientsValue =
     Node Array None 17 9
       (Some [Node String (Some (JString ''a'')) 18 3 None,
              Node String (Some (JString ''b'')) 22 3 None])"

definition exRecipeObject :: node where
  "exRecipeObject =
     Node Object None 1 26
       (Some [Node Property None 2 24 (Some [exIngredientsKey, exIngredientsValue])])"

definition exRecipes :: node where
  "exRecipes = Node Array None 0 28 (Some [exRecipeObject])"

definition exRecipesDoc :: textDocument where
  "exRecipesDoc =
     \<lparr>getText = ''[{\"ingredients\": [\"a\",\"b\"]}]'',
      positionAt = (\<lambda>k. Position 0 (min k 28))\<rparr>"

text \<open>The tree of the text \<^verbatim>\<open>{"k":1,"k":2}\<close>, an object with a repeated key.\<close>

definition exFirstK :: node where
  "exFirstK =
     Node Property None 1 5
       (Some [Node String (Some (JString ''k'')) 1 3 None,
              Node Number (Some (JNumber 1)) 5 1 None])"

definition exSecondK :: node where
  "exSecondK =
     Node Property None 7 5
       (Some [Node String (Some (JString ''k'')) 7 3 None,
              Node Number (Some (JNumber 2)) 11 1 None])"

definition exRepeated :: node where
  "exRepeated = Node Object None 0 13 (Some [exFirstK, exSecondK])"

text \<open>
  The referring documents: the tree of \<^verbatim>\<open>{"file": "foo:a.json", "path": "5"}\<close>, in
  which the value of \<^verbatim>\<open>path\<close> is the node at the child indices \<open>[1, 1]\<close>, and the
  tree of \<^verbatim>\<open>{"path": "5"}\<close>, which has no sibling \<^verbatim>\<open>file\<close>.
\<close>

definition exFileProperty :: node where
  "exFileProperty =
     Node Property None 1 20
       (Some [Node String (Some (JString ''file'')) 1 6 None,
              Node String (Some (JString ''foo:a.json'')) 9 12 None])"

definition exReferring :: node where
  "exReferring =
     Node Object None 0 35
       (Some [exFileProperty,
              Node Property None 23 11
                (Some [Node String (Some (JString ''path'')) 23 6 None,
                       Node String (Some (JString ''5'')) 31 3 None])])"

definition exNoFile :: node where
  "exNoFile =
     Node Object None 0 13
       (Some [Node Property None 1 11
                (Some [Node String (Some (JString ''path'')) 1 6 None,
                       Node String (Some (JString ''5'')) 9 3 None])])"

text \<open>
  The tree of \<^verbatim>\<open>{"file": "foo:a.json", "file": "bar:b.json", "path": "1"}\<close>, in which
  the key \<^verbatim>\<open>file\<close> is repeated.
\<close>

definition exTwoFiles :: node where
  "exTwoFiles =
     Node Object None 0 57
       (Some [exFileProperty,
              Node Property None 23 20
                (Some [Node String (Some (JString ''file'')) 23 6 None,
                       Node String (Some (JString ''bar:b.json'')) 31 12 None]),
              Node Property None 45 11
                (Some [Node String (Some (JString ''path'')) 45 6 None,
                       Node String (Some (JString ''1'')) 53 3 None])])"

text \<open>
  A workspace with the one folder \<^verbatim>\<open>/ws/foo\<close>, named \<^verbatim>\<open>foo\<close>, holding
  \<^verbatim>\<open>assets/foo/a.json\<close>; the host is given the document of that file and its tree.
\<close>

definition exHost :: "textDocument \<Rightarrow> node option \<Rightarrow> host" where
  "exHost doc tree =
     \<lparr>workspaceFolders = Some [\<lparr>folderName = ''foo'', fsPath = ''/ws/foo''\<rparr>],
      existsSync = (\<lambda>p. p \<in> set [''/ws/foo/assets/foo'', ''/ws/foo/assets/foo/a.json'']),
      readDirectory = (\<lambda>d. if d = ''/ws/foo'' then Inr [(''assets'', 2)] else Inl HostError),
      pathJoin = slashJoin,
      openTextDocument =
        (\<lambda>u. if u = ''/ws/foo/assets/foo/a.json'' then Inr doc else Inl HostError),
      parseTree = (\<lambda>t. if t = getText doc then tree else None)\<rparr>"

text \<open>The empty document: its text has no value, and the parser yields no tree.\<close>

definition exEmptyDoc :: textDocument where
  "exEmptyDoc = \<lparr>getText = [], positionAt = (\<lambda>k. Position 0 0)\<rparr>"

text \<open>
  A workspace \<^verbatim>\<open>/ws\<close> with the subdirectories \<^verbatim>\<open>foo_1\<close> and \<^verbatim>\<open>foo_2\<close>: both hold
  \<^verbatim>\<open>assets/foo\<close>, only the second holds \<^verbatim>\<open>assets/foo/x.json\<close>.
\<close>

definition exTwoVersions :: host where
  "exTwoVersions =
     \<lparr>workspaceFolders = Some [\<lparr>folderName = ''ws'', fsPath = ''/ws''\<rparr>],
      existsSync = (\<lambda>p. p \<in> set [''/ws/foo_1/assets/foo'', ''/ws/foo_2/assets/foo'',
                                  ''/ws/foo_2/assets/foo/x.json'']),
      readDirectory =
        (\<lambda>d. if d = ''/ws'' then Inr [(''foo_1'', 2), (''foo_2'', 2)] else Inl HostError),
      pathJoin = slashJoin,
      openTextDocument = (\<lambda>u. Inl HostError),
      parseTree = (\<lambda>t. None)\<rparr>"

text \<open>
  Two open folders, in this order: \<^verbatim>\<open>/mods\<close>, whose subdirectory \<^verbatim>\<open>foo_1\<close> holds
  \<^verbatim>\<open>assets/foo/x.json\<close>, and \<^verbatim>\<open>/foo\<close>, named \<^verbatim>\<open>foo\<close>, which holds it too.
\<close>

definition exTwoFolders :: host where
  "exTwoFolders =
     \<lparr>workspaceFolders =
        Some [\<lparr>folderName = ''mods'', fsPath = ''/mods''\<rparr>,
              \<lparr>folderName = ''foo'', fsPath = ''/foo''\<rparr>],
      existsSync = (\<lambda>p. p \<in> set [''/mods/foo_1/assets/foo'', ''/mods/foo_1/assets/foo/x.json'',
                                  ''/foo/assets/foo'', ''/foo/assets/foo/x.json'']),
      readDirectory =
        (\<lambda>d. if d = ''/mods'' then Inr [(''foo_1'', 2)]
              else if d = ''/foo'' then Inr [(''assets'', 2)]
              else Inl HostError),
      pathJoin = slashJoin,
      openTextDocument = (\<lambda>u. Inl HostError),
      parseTree = (\<lambda>t. None)\<rparr>"

text \<open>
  A workspace with the one folder \<^verbatim>\<open>/ws/foo_1.2.3\<close>, named \<^verbatim>\<open>foo_1.2.3\<close>, which holds
  a directory \<^verbatim>\<open>src\<close> and no \<^verbatim>\<open>assets/foo\<close>.
\<close>

definition exNoAssets :: host where
  "exNoAssets =
     \<lparr>workspaceFolders = Some [\<lparr>folderName = ''foo_1.2.3'', fsPath = ''/ws/foo_1.2.3''\<rparr>],
      existsSync = (\<lambda>p. p \<in> set [''/ws/foo_1.2.3/src'']),
      readDirectory = (\<lambda>d. if d = ''/ws/foo_1.2.3'' then Inr [(''src'', 2)] else Inl HostError),
      pathJoin = slashJoin,
      openTextDocument = (\<lambda>u. Inl HostError),
      parseTree = (\<lambda>t. None)\<rparr>"

section \<open>Auxiliary facts\<close>

subsection \<open>Splitting and prefixes\<close>

lemma split_not_Nil: "split c s \<noteq> []"
  by (induction s) (auto split: list.splits)

lemma length_split: "length (split c s) = Suc (count_list s c)"
proof (induction s)
  case Nil
  show ?case by simp
next
  case (Cons x xs)
  show ?case
  proof (cases "split c xs")
    case Nil
    with split_not_Nil show ?thesis by blast
  next
    case (Cons w ws)
    with Cons.IH show ?thesis by auto
  qed
qed

lemma split_no_separator: "c \<notin> set s \<Longrightarrow> split c s = [s]"
  by (induction s) auto

lemma split_at_separator: "c \<notin> set a \<Longrightarrow> split c (a @ c # b) = a # split c b"
  by (induction a) auto

lemma split_two_parts:
  "split c s = [a, b] \<longleftrightarrow> s = a @ c # b \<and> c \<notin> set a \<and> c \<notin> set b"
proof
  assume "s = a @ c # b \<and> c \<notin> set a \<and> c \<notin> set b"
  then show "split c s = [a, b]"
    by (simp add: split_at_separator split_no_separator)
next
  assume "split c s = [a, b]"
  then show "s = a @ c # b \<and> c \<notin> set a \<and> c \<notin> set b"
  proof (induction s arbitrary: a)
    case Nil
    then show ?case by simp
  next
    case (Cons x xs)
    show ?case
    proof (cases "x = c")
      case True
      with Cons.prems have a: "a = []" and b: "split c xs = [b]" by simp_all
      from b have "count_list xs c = 0"
        using length_split [of c xs] by simp
      then have n: "c \<notin> set xs" by (simp add: count_list_0_iff)
      with b have "xs = b" by (simp add: split_no_separator)
      with a True n show ?thesis by simp
    next
      case False
      obtain v vs where v: "split c xs = v # vs"
        using split_not_Nil [of c xs] by (cases "split c xs") auto
      with Cons.prems False have "a = x # v" and "vs = [b]" by simp_all
      with v Cons.IH [of v] False show ?thesis by simp
    qed
  qed
qed

lemma startsWith_iff: "startsWith s p \<longleftrightarrow> (\<exists>r. s = p @ r)"
proof
  assume "startsWith s p"
  then have "s = p @ drop (length p) s"
    by (metis append_take_drop_id startsWith_def)
  then show "\<exists>r. s = p @ r" ..
next
  assume "\<exists>r. s = p @ r"
  then show "startsWith s p" by (auto simp: startsWith_def)
qed

lemma isMatchingFolder_iff:
  "isMatchingFolder domain name \<longleftrightarrow>
     name = domain \<or> (\<exists>suffix. name = domain @ ''_'' @ suffix)
       \<or> (\<exists>suffix. name = domain @ ''-'' @ suffix)"
  by (simp add: isMatchingFolder_def startsWith_iff)

subsection \<open>Property lookup and the walk\<close>

lemma findPropertyLoop_find: "findPropertyLoop cs key = find (\<lambda>p. hasKey p key) cs"
proof (induction cs)
  case Nil
  show ?case by simp
next
  case (Cons child rest)
  show ?case
  proof (cases "children child")
    case None
    with Cons show ?thesis by (simp add: hasKey_def)
  next
    case (Some ks)
    with Cons show ?thesis by (cases ks) (simp_all add: hasKey_def)
  qed
qed

lemma find_first_occurrence:
  "find P xs = Some x \<longleftrightarrow> (\<exists>pre post. xs = pre @ x # post \<and> P x \<and> (\<forall>q\<in>set pre. \<not> P q))"
proof (induction xs)
  case Nil
  show ?case by simp
next
  case (Cons y ys)
  show ?case
  proof (cases "P y")
    case True
    have "(\<exists>pre post. y # ys = pre @ x # post \<and> P x \<and> (\<forall>q\<in>set pre. \<not> P q)) \<longleftrightarrow> x = y"
    proof
      assume "\<exists>pre post. y # ys = pre @ x # post \<and> P x \<and> (\<forall>q\<in>set pre. \<not> P q)"
      then obtain pre post where e: "y # ys = pre @ x # post" and n: "\<forall>q\<in>set pre. \<not> P q"
        by blast
      show "x = y"
      proof (cases pre)
        case Nil
        with e show ?thesis by simp
      next
        case (Cons a as)
        with e n True show ?thesis by simp
      qed
    next
      assume "x = y"
      with True have "y # ys = [] @ x # ys \<and> P x \<and> (\<forall>q\<in>set []. \<not> P q)" by simp
      then show "\<exists>pre post. y # ys = pre @ x # post \<and> P x \<and> (\<forall>q\<in>set pre. \<not> P q)" by blast
    qed
    with True show ?thesis by auto
  next
    case False
    have "(\<exists>pre post. y # ys = pre @ x # post \<and> P x \<and> (\<forall>q\<in>set pre. \<not> P q))
          \<longleftrightarrow> (\<exists>pre post. ys = pre @ x # post \<and> P x \<and> (\<forall>q\<in>set pre. \<not> P q))"
    proof
      assume "\<exists>pre post. y # ys = pre @ x # post \<and> P x \<and> (\<forall>q\<in>set pre. \<not> P q)"
      then obtain pre post where e: "y # ys = pre @ x # post" and p: "P x"
        and n: "\<forall>q\<in>set pre. \<not> P q" by blast
      show "\<exists>pre post. ys = pre @ x # post \<and> P x \<and> (\<forall>q\<in>set pre. \<not> P q)"
      proof (cases pre)
        case Nil
        with e p False show ?thesis by simp
      next
        case (Cons a as)
        with e n p have "ys = as @ x # post \<and> P x \<and> (\<forall>q\<in>set as. \<not> P q)" by simp
        then show ?thesis by blast
      qed
    next
      assume "\<exists>pre post. ys = pre @ x # post \<and> P x \<and> (\<forall>q\<in>set pre. \<not> P q)"
      then obtain pre post where "ys = pre @ x # post" "P x" "\<forall>q\<in>set pre. \<not> P q" by blast
      with False have "y # ys = (y # pre) @ x # post \<and> P x \<and> (\<forall>q\<in>set (y # pre). \<not> P q)"
        by simp
      then show "\<exists>pre post. y # ys = pre @ x # post \<and> P x \<and> (\<forall>q\<in>set pre. \<not> P q)" by blast
    qed
    with False Cons.IH show ?thesis by simp
  qed
qed

lemma walk_append: "walk cur (a @ b) = walk (walk cur a) b"
proof (induction a arbitrary: cur)
  case Nil
  show ?case by simp
next
  case (Cons p ps)
  show ?case
  proof (cases cur)
    case None
    then show ?thesis by (cases b) simp_all
  next
    case (Some n)
    with Cons show ?thesis by simp
  qed
qed

lemma walk_None: "walk None parts = None"
  by (cases parts) simp_all

lemma findProperty_find:
  "ntype n = Object \<Longrightarrow> children n = Some cs \<Longrightarrow> findProperty n key = find (\<lambda>p. hasKey p key) cs"
  by (simp add: findProperty_def findPropertyLoop_find)

lemma findProperty_first:
  assumes "ntype n = Object" and "children n = Some (pre @ p # post)"
    and "hasKey p key" and "\<forall>q\<in>set pre. \<not> hasKey q key"
  shows "findProperty n key = Some p"
proof -
  have "find (\<lambda>q. hasKey q key) (pre @ p # post) = Some p"
    using assms(3,4) find_first_occurrence [of "\<lambda>q. hasKey q key" "pre @ p # post" p] by blast
  with assms(1,2) show ?thesis by (simp add: findProperty_find)
qed

lemma hasKey_children:
  "hasKey p key \<Longrightarrow> \<exists>k ks. ntype p = Property \<and> children p = Some (k # ks) \<and> nvalue k = Some (JString key)"
  by (auto simp: hasKey_def split: option.splits list.splits)

lemma walkStep_object:
  assumes "ntype n = Object" and "findProperty n part = Some q" and "children q = Some (k # ks)"
  shows "walkStep n part = Some k"
  using assms by (simp add: walkStep_def elementAt_def)

lemma resolvePathDefinition_sibling:
  assumes "Option.bind (Option.bind (parent pathNode) parent) deref = Some parentNode"
    and "ntype parentNode = Object"
    and "findProperty parentNode ''file'' = Some fileProperty"
    and "elementAt (children fileProperty) 1 = Some fileValueNode"
    and "ntype fileValueNode = String"
    and "nvalue fileValueNode = Some (JString fileString)"
  shows "resolvePathDefinition h pathNode jsonPointer =
           (case resolveVintageStoryPath h fileString of
              None \<Rightarrow> Inr None
            | Some targetUri \<Rightarrow> Inr (resolveInTarget h targetUri jsonPointer))"
  using assms by (simp add: resolvePathDefinition_def)

lemma findProperty_Some:
  assumes "findProperty n part = Some q"
  shows "ntype n = Object \<and> (\<exists>cs. children n = Some cs \<and> q \<in> set cs) \<and> hasKey q part"
proof -
  from assms have o: "ntype n = Object" and c: "children n \<noteq> None"
    by (auto simp: findProperty_def split: if_splits)
  from c obtain cs where cs: "children n = Some cs" by blast
  with o assms have "find (\<lambda>p. hasKey p part) cs = Some q"
    by (simp add: findProperty_find)
  then have "q \<in> set cs \<and> hasKey q part"
    by (auto simp: find_Some_iff)
  with o cs show ?thesis by blast
qed

lemma walkStep_None_iff:
  "walkStep n part = None \<longleftrightarrow>
     (if ntype n = Array then
        parseInt part = None \<or> children n = None
        \<or> (\<exists>i. parseInt part = Some i \<and> (i < 0 \<or> int (length (the (children n))) \<le> i))
      else if ntype n = Object then findProperty n part = None
      else True)"
proof (cases "ntype n = Object")
  case True
  show ?thesis
  proof (cases "findProperty n part")
    case None
    with True show ?thesis by (simp add: walkStep_def)
  next
    case (Some q)
    from findProperty_Some [OF Some] hasKey_children obtain k ks
      where "children q = Some (k # ks)" by blast
    with walkStep_object [OF True Some this] True Some show ?thesis by simp
  qed
next
  case False
  then show ?thesis
    by (auto simp: walkStep_def elementAt_def split: option.splits)
qed

lemma walk_fails_at:
  assumes "walk (Some tree) pre = Some n" and "walkStep n part = None"
  shows "walk (Some tree) (pre @ part # rest) = None"
  using assms by (simp add: walk_append walk_None)

lemma resolveInTarget_fallback:
  assumes "openTextDocument h targetUri = Inr doc"
    and "parseTree h (getText doc) = Some tree"
    and "walk (Some tree) (pathParts jsonPointer) = None"
  shows "resolveInTarget h targetUri jsonPointer
           = Some (Location targetUri (Range (Position 0 0) (Position 0 0)))"
  using assms by (simp add: resolveInTarget_def locationAt_def)

lemma walkStep_object_result:
  assumes "ntype n = Object" and "children n = Some cs" and "walkStep n part = Some k"
  shows "\<exists>q ks. q \<in> set cs \<and> ntype q = Property \<and> children q = Some (k # ks)"
proof -
  from assms(1,3) obtain q where q: "findProperty n part = Some q"
    by (auto simp: walkStep_def split: option.splits)
  from findProperty_Some [OF q] assms(2) have m: "q \<in> set cs" and hk: "hasKey q part"
    by auto
  from hasKey_children [OF hk] obtain k' ks
    where c: "ntype q = Property" "children q = Some (k' # ks)" by blast
  from walkStep_object [OF assms(1) q c(2)] assms(3) have "k' = k" by simp
  with m c show ?thesis by blast
qed

lemma walkStep_scalar: "ntype n \<noteq> Array \<Longrightarrow> ntype n \<noteq> Object \<Longrightarrow> walkStep n part = None"
  by (simp add: walkStep_def)

subsection \<open>The loops over folders and entries\<close>

lemma existsInChildren_iff:
  "existsInChildren h domain folder entries \<longleftrightarrow>
     (\<exists>entry\<in>set entries. snd entry = FileType_Directory \<and> isMatchingFolder domain (fst entry)
        \<and> existsSync h (pathJoin h [fsPath folder, fst entry, ''assets'', domain]))"
  by (induction entries) auto

lemma existsInFolders_iff:
  "existsInFolders h domain folders \<longleftrightarrow>
     (\<exists>folder\<in>set folders.
        (isMatchingFolder domain (folderName folder)
           \<and> existsSync h (pathJoin h [fsPath folder, ''assets'', domain]))
        \<or> (\<exists>entries. readDirectory h (fsPath folder) = Inr entries
             \<and> (\<exists>entry\<in>set entries. snd entry = FileType_Directory
                   \<and> isMatchingFolder domain (fst entry)
                   \<and> existsSync h (pathJoin h [fsPath folder, fst entry, ''assets'', domain]))))"
  (is "_ \<longleftrightarrow> (\<exists>folder\<in>set folders. ?Q folder)")
proof (induction folders)
  case Nil
  show ?case by simp
next
  case (Cons folder rest)
  have step: "existsInFolders h domain (folder # rest)
      \<longleftrightarrow> ?Q folder \<or> existsInFolders h domain rest"
  proof (cases "readDirectory h (fsPath folder)")
    case (Inl e)
    then show ?thesis by auto
  next
    case (Inr entries)
    then show ?thesis by (auto simp: existsInChildren_iff)
  qed
  show ?case
    unfolding step Cons.IH by simp
qed

lemma resolveChildren_find:
  "resolveChildren h domain relativePath folder entries =
     find (existsSync h)
       (map (\<lambda>dir. pathJoin h (dir @ [''assets'', domain, relativePath]))
          (map (\<lambda>entry. [fsPath folder, fst entry])
             (filter (\<lambda>entry. snd entry = FileType_Directory \<and> isMatchingFolder domain (fst entry))
                entries)))"
  by (induction entries) (auto simp: Let_def)

lemma find_append: "find P (xs @ ys) = (case find P xs of Some x \<Rightarrow> Some x | None \<Rightarrow> find P ys)"
  by (induction xs) auto

lemma resolveFolders_find:
  "resolveFolders h domain relativePath folders =
     find (existsSync h) (candidates h domain relativePath folders)"
proof (induction folders)
  case Nil
  show ?case by (simp add: candidates_def)
next
  case (Cons folder rest)
  have cons: "candidates h domain relativePath (folder # rest) =
      map (\<lambda>dir. pathJoin h (dir @ [''assets'', domain, relativePath])) (ownerDirs h domain folder)
      @ candidates h domain relativePath rest"
    by (simp add: candidates_def)
  show ?case
  proof (cases "readDirectory h (fsPath folder)")
    case (Inl e)
    with Cons show ?thesis
      by (simp add: cons find_append ownerDirs_def)
  next
    case (Inr entries)
    with Cons show ?thesis
      by (simp add: cons find_append ownerDirs_def resolveChildren_find split: option.splits)
  qed
qed

lemma resolveVintageStoryPath_parts:
  assumes "split CHR '':'' token = [domain, relativePath]"
    and "workspaceFolders h = Some folders"
  shows "resolveVintageStoryPath h token = resolveFolders h domain relativePath folders"
  using assms by (simp add: resolveVintageStoryPath_def)

section \<open>Properties of the cross-reference resolution\<close>

text \<open>
  Claim C8.  A string whose number of colons is not exactly one resolves to no path:
  \<open>resolveVintageStoryPath\<close> returns absent for it, on every host.  The function has
  no outcome other than a path or absent, so nothing is thrown.
\<close>

theorem resolveVintageStoryPath_colon_count:
  "count_list pathStr CHR '':'' \<noteq> 1 \<Longrightarrow> resolveVintageStoryPath h pathStr = None"
  by (simp add: resolveVintageStoryPath_def length_split)

theorem resolveVintageStoryPath_colon_count_witness:
  "count_list ''foo:a:b.json'' CHR '':'' \<noteq> 1
   \<and> resolveVintageStoryPath (exHost exPairDoc (Some exPair)) ''foo:a:b.json'' = None
   \<and> count_list ''foo'' CHR '':'' \<noteq> 1
   \<and> resolveVintageStoryPath (exHost exPairDoc (Some exPair)) ''foo'' = None"
proof -
  have two: "count_list ''foo:a:b.json'' CHR '':'' \<noteq> 1" by simp
  have zero: "count_list ''foo'' CHR '':'' \<noteq> 1" by simp
  from two zero
    resolveVintageStoryPath_colon_count [OF two, of "exHost exPairDoc (Some exPair)"]
    resolveVintageStoryPath_colon_count [OF zero, of "exHost exPairDoc (Some exPair)"]
  show ?thesis by blast
qed

text \<open>
  Claim C7.  \<open>checkDomainExists\<close> is true exactly when some open workspace folder, or
  some entry listed in one that is a directory, has a name matching the domain and
  holds \<^verbatim>\<open>assets/<domain>\<close>; a name matches when it is the domain, or the domain
  followed by \<^verbatim>\<open>_\<close> or \<^verbatim>\<open>-\<close> and any suffix.  A matching name without the assets
  directory gives false.
\<close>

theorem checkDomainExists_iff:
  "(checkDomainExists h domain \<longleftrightarrow>
      (\<exists>folders. workspaceFolders h = Some folders \<and>
         (\<exists>folder\<in>set folders.
            (isMatchingFolder domain (folderName folder)
               \<and> existsSync h (pathJoin h [fsPath folder, ''assets'', domain]))
            \<or> (\<exists>entries. readDirectory h (fsPath folder) = Inr entries
                 \<and> (\<exists>entry\<in>set entries. snd entry = FileType_Directory
                       \<and> isMatchingFolder domain (fst entry)
                       \<and> existsSync h
                           (pathJoin h [fsPath folder, fst entry, ''assets'', domain]))))))
   \<and> (isMatchingFolder domain name \<longleftrightarrow>
        name = domain \<or> (\<exists>suffix. name = domain @ ''_'' @ suffix)
          \<or> (\<exists>suffix. name = domain @ ''-'' @ suffix))"
proof
  show "checkDomainExists h domain \<longleftrightarrow>
      (\<exists>folders. workspaceFolders h = Some folders \<and>
         (\<exists>folder\<in>set folders.
            (isMatchingFolder domain (folderName folder)
               \<and> existsSync h (pathJoin h [fsPath folder, ''assets'', domain]))
            \<or> (\<exists>entries. readDirectory h (fsPath folder) = Inr entries
                 \<and> (\<exists>entry\<in>set entries. snd entry = FileType_Directory
                       \<and> isMatchingFolder domain (fst entry)
                       \<and> existsSync h
                           (pathJoin h [fsPath folder, fst entry, ''assets'', domain])))))"
  proof (cases "workspaceFolders h")
    case None
    then show ?thesis by (simp add: checkDomainExists_def)
  next
    case (Some folders)
    then show ?thesis by (simp add: checkDomainExists_def existsInFolders_iff)
  qed
next
  show "isMatchingFolder domain name \<longleftrightarrow>
        name = domain \<or> (\<exists>suffix. name = domain @ ''_'' @ suffix)
          \<or> (\<exists>suffix. name = domain @ ''-'' @ suffix)"
    by (rule isMatchingFolder_iff)
qed

theorem checkDomainExists_iff_witness:
  "isMatchingFolder ''foo'' ''foo_1.2.3''
   \<and> \<not> checkDomainExists exNoAssets ''foo''
   \<and> checkDomainExists exTwoFolders ''foo''"
proof -
  have name: "isMatchingFolder ''foo'' ''foo_1.2.3''"
  proof -
    have "''foo_1.2.3'' = ''foo'' @ ''_'' @ ''1.2.3''" by simp
    then have "\<exists>suffix. ''foo_1.2.3'' = ''foo'' @ ''_'' @ suffix" by (rule exI)
    with checkDomainExists_iff [of exNoAssets "''foo''" "''foo_1.2.3''"] show ?thesis
      by blast
  qed
  have absent: "\<not> checkDomainExists exNoAssets ''foo''"
    using checkDomainExists_iff [of exNoAssets "''foo''" "''foo''"]
    by (simp add: exNoAssets_def isMatchingFolder_def startsWith_def FileType_Directory_def)
  have present: "checkDomainExists exTwoFolders ''foo''"
    using checkDomainExists_iff [of exTwoFolders "''foo''" "''foo''"]
    by (simp add: exTwoFolders_def isMatchingFolder_def startsWith_def FileType_Directory_def)
  from name absent present show ?thesis by blast
qed

text \<open>
  Claim C3, as the specification states it, fails: with two matching subdirectories of
  which the first holds \<^verbatim>\<open>assets/foo\<close> but not the file, the locator of the
  specification chooses the first and its single candidate does not exist, yet the
  resolution returns the file under the second.
\<close>

theorem resolveVintageStoryPath_counterexample_single_candidate:
  "resolveVintageStoryPath exTwoVersions ''foo:x.json'' = Some ''/ws/foo_2/assets/foo/x.json''
   \<and> spec_locateDomain exTwoVersions ''foo'' [\<lparr>folderName = ''ws'', fsPath = ''/ws''\<rparr>]
       = Some [''/ws'', ''foo_1'']
   \<and> \<not> existsSync exTwoVersions ''/ws/foo_1/assets/foo/x.json''
   \<and> spec_resolveReference exTwoVersions ''foo:x.json'' = None"
  by code_simp

text \<open>
  Claim C3, amended.  For a token \<^verbatim>\<open>domain:relativePath\<close> the resolution computes one
  candidate \<^verbatim>\<open><dir>/assets/<domain>/<relativePath>\<close> for every matching directory
  (each open folder with a matching name and each listed subdirectory with a matching
  name); it returns absent exactly when none of these candidates exists on disk, and
  a path it returns is one of these candidates and exists.
\<close>

theorem resolveVintageStoryPath_candidates:
  assumes "split CHR '':'' token = [domain, relativePath]"
    and "workspaceFolders h = Some folders"
  shows "(resolveVintageStoryPath h token = None
            \<longleftrightarrow> (\<forall>c\<in>set (candidates h domain relativePath folders). \<not> existsSync h c))
         \<and> (\<forall>p. resolveVintageStoryPath h token = Some p
              \<longrightarrow> p \<in> set (candidates h domain relativePath folders) \<and> existsSync h p)"
proof -
  have eq: "resolveVintageStoryPath h token
      = find (existsSync h) (candidates h domain relativePath folders)"
    using assms by (simp add: resolveVintageStoryPath_parts resolveFolders_find)
  show ?thesis
    unfolding eq by (auto simp: find_None_iff find_Some_iff)
qed

theorem resolveVintageStoryPath_candidates_witness:
  "split CHR '':'' ''foo:x.json'' = [''foo'', ''x.json'']
   \<and> candidates exTwoVersions ''foo'' ''x.json'' [\<lparr>folderName = ''ws'', fsPath = ''/ws''\<rparr>]
       = [''/ws/foo_1/assets/foo/x.json'', ''/ws/foo_2/assets/foo/x.json'']
   \<and> resolveVintageStoryPath exTwoVersions ''foo:x.json'' \<noteq> None
   \<and> existsSync exTwoVersions ''/ws/foo_2/assets/foo/x.json''"
proof -
  have parts: "split CHR '':'' ''foo:x.json'' = [''foo'', ''x.json'']" by simp
  have folders: "workspaceFolders exTwoVersions = Some [\<lparr>folderName = ''ws'', fsPath = ''/ws''\<rparr>]"
    by (simp add: exTwoVersions_def)
  have cands: "candidates exTwoVersions ''foo'' ''x.json'' [\<lparr>folderName = ''ws'', fsPath = ''/ws''\<rparr>]
       = [''/ws/foo_1/assets/foo/x.json'', ''/ws/foo_2/assets/foo/x.json'']"
    by code_simp
  have ex: "existsSync exTwoVersions ''/ws/foo_2/assets/foo/x.json''"
    by (simp add: exTwoVersions_def)
  from resolveVintageStoryPath_candidates [OF parts folders] cands ex
  have "resolveVintageStoryPath exTwoVersions ''foo:x.json'' \<noteq> None"
    by simp
  with parts cands ex show ?thesis by blast
qed

text \<open>
  Claim C4, as the specification states it, fails: with the folders \<^verbatim>\<open>/mods\<close> and
  \<^verbatim>\<open>/foo\<close> open in this order, testing every folder's own name first would choose
  \<^verbatim>\<open>/foo\<close>, yet the resolution returns the file under the subdirectory of \<^verbatim>\<open>/mods\<close>.
\<close>

theorem resolveVintageStoryPath_counterexample_two_phases:
  "resolveVintageStoryPath exTwoFolders ''foo:x.json'' = Some ''/mods/foo_1/assets/foo/x.json''
   \<and> spec_locateDomain exTwoFolders ''foo''
         [\<lparr>folderName = ''mods'', fsPath = ''/mods''\<rparr>, \<lparr>folderName = ''foo'', fsPath = ''/foo''\<rparr>]
       = Some [''/foo'']
   \<and> spec_resolveReference exTwoFolders ''foo:x.json'' = Some ''/foo/assets/foo/x.json''"
  by code_simp

text \<open>
  Claim C4, amended.  The resolution goes through the open folders in the order the
  editor reports them and, for each folder, tests the folder's own name first and then
  the immediate subdirectories of that folder, before it moves to the next folder;
  the first candidate that exists wins.
\<close>

theorem resolveVintageStoryPath_folder_order:
  assumes "split CHR '':'' token = [domain, relativePath]"
    and "workspaceFolders h = Some folders"
  shows "resolveVintageStoryPath h token
           = find (existsSync h)
               (concat (map (\<lambda>folder. map (\<lambda>dir. pathJoin h (dir @ [''assets'', domain, relativePath]))
                                         (ownerDirs h domain folder)) folders))"
  using assms
  by (simp add: resolveVintageStoryPath_parts resolveFolders_find candidates_def map_concat comp_def)

theorem resolveVintageStoryPath_folder_order_witness:
  "split CHR '':'' ''foo:x.json'' = [''foo'', ''x.json'']
   \<and> ownerDirs exTwoFolders ''foo'' \<lparr>folderName = ''mods'', fsPath = ''/mods''\<rparr> = [[''/mods'', ''foo_1'']]
   \<and> ownerDirs exTwoFolders ''foo'' \<lparr>folderName = ''foo'', fsPath = ''/foo''\<rparr> = [[''/foo'']]
   \<and> resolveVintageStoryPath exTwoFolders ''foo:x.json''
       = find (existsSync exTwoFolders)
           [''/mods/foo_1/assets/foo/x.json'', ''/foo/assets/foo/x.json'']"
proof -
  have parts: "split CHR '':'' ''foo:x.json'' = [''foo'', ''x.json'']" by simp
  have folders: "workspaceFolders exTwoFolders
      = Some [\<lparr>folderName = ''mods'', fsPath = ''/mods''\<rparr>, \<lparr>folderName = ''foo'', fsPath = ''/foo''\<rparr>]"
    by (simp add: exTwoFolders_def)
  have d1: "ownerDirs exTwoFolders ''foo'' \<lparr>folderName = ''mods'', fsPath = ''/mods''\<rparr>
      = [[''/mods'', ''foo_1'']]"
    by code_simp
  have d2: "ownerDirs exTwoFolders ''foo'' \<lparr>folderName = ''foo'', fsPath = ''/foo''\<rparr> = [[''/foo'']]"
    by code_simp
  have j: "pathJoin exTwoFolders = slashJoin" by (simp add: exTwoFolders_def)
  from resolveVintageStoryPath_folder_order [OF parts folders]
  have "resolveVintageStoryPath exTwoFolders ''foo:x.json''
       = find (existsSync exTwoFolders)
           [''/mods/foo_1/assets/foo/x.json'', ''/foo/assets/foo/x.json'']"
    by (simp add: d1 d2 j)
  with parts d1 d2 show ?thesis by blast
qed

section \<open>Properties of the property lookup and of the pointer walk\<close>

text \<open>
  Claim C10.  In an object node with several properties of the same key, the lookup
  returns the first of them in document order: if a child carries the key and no
  child before it does, \<open>findProperty\<close> returns that child.  So the object step of
  the walk goes to the key node of that first property, and the resolution of a
  \<^verbatim>\<open>path\<close> property takes the string of the first sibling \<^verbatim>\<open>file\<close>.
\<close>

theorem findProperty_first_occurrence:
  assumes "ntype n = Object" and "children n = Some (pre @ p # post)"
    and "hasKey p key" and "\<forall>q\<in>set pre. \<not> hasKey q key"
  shows "findProperty n key = Some p
         \<and> walkStep n key = elementAt (children p) 0
         \<and> (\<forall>h pathNode jsonPointer fileValueNode fileString.
               key = ''file''
               \<and> Option.bind (Option.bind (parent pathNode) parent) deref = Some n
               \<and> elementAt (children p) 1 = Some fileValueNode
               \<and> ntype fileValueNode = String
               \<and> nvalue fileValueNode = Some (JString fileString)
               \<longrightarrow> resolvePathDefinition h pathNode jsonPointer =
                     (case resolveVintageStoryPath h fileString of
                        None \<Rightarrow> Inr None
                      | Some targetUri \<Rightarrow> Inr (resolveInTarget h targetUri jsonPointer)))"
proof -
  have found: "findProperty n key = Some p"
    using assms by (rule findProperty_first)
  obtain k ks where ch: "children p = Some (k # ks)"
    using hasKey_children [OF assms(3)] by blast
  have step: "walkStep n key = elementAt (children p) 0"
    using walkStep_object [OF assms(1) found ch] ch by (simp add: elementAt_def)
  have path: "\<forall>h pathNode jsonPointer fileValueNode fileString.
               key = ''file''
               \<and> Option.bind (Option.bind (parent pathNode) parent) deref = Some n
               \<and> elementAt (children p) 1 = Some fileValueNode
               \<and> ntype fileValueNode = String
               \<and> nvalue fileValueNode = Some (JString fileString)
               \<longrightarrow> resolvePathDefinition h pathNode jsonPointer =
                     (case resolveVintageStoryPath h fileString of
                        None \<Rightarrow> Inr None
                      | Some targetUri \<Rightarrow> Inr (resolveInTarget h targetUri jsonPointer))"
    using assms(1) found by (auto intro: resolvePathDefinition_sibling)
  from found step path show ?thesis by blast
qed

theorem findProperty_first_occurrence_witness:
  "hasKey exFirstK ''k'' \<and> hasKey exSecondK ''k''
   \<and> findProperty exRepeated ''k'' = Some exFirstK
   \<and> walkStep exRepeated ''k'' = Some (Node String (Some (JString ''k'')) 1 3 None)
   \<and> resolvePathDefinition (exHost exPairDoc (Some exPair)) (exTwoFiles, [2, 1]) ''1''
       = (case resolveVintageStoryPath (exHost exPairDoc (Some exPair)) ''foo:a.json'' of
            None \<Rightarrow> Inr None
          | Some targetUri \<Rightarrow> Inr (resolveInTarget (exHost exPairDoc (Some exPair)) targetUri ''1''))"
proof -
  have k1: "hasKey exFirstK ''k''" by (simp add: hasKey_def exFirstK_def)
  have k2: "hasKey exSecondK ''k''" by (simp add: hasKey_def exSecondK_def)
  have o: "ntype exRepeated = Object" by (simp add: exRepeated_def)
  have c: "children exRepeated = Some ([] @ exFirstK # [exSecondK])" by (simp add: exRepeated_def)
  have e: "\<forall>q\<in>set []. \<not> hasKey q ''k''" by simp
  have first: "elementAt (children exFirstK) 0 = Some (Node String (Some (JString ''k'')) 1 3 None)"
    by (simp add: elementAt_def exFirstK_def)
  have o2: "ntype exTwoFiles = Object" by (simp add: exTwoFiles_def)
  have c2: "children exTwoFiles = Some ([] @ exFileProperty # tl (the (children exTwoFiles)))"
    by (simp add: exTwoFiles_def)
  have f: "hasKey exFileProperty ''file''" by (simp add: hasKey_def exFileProperty_def)
  have e2: "\<forall>q\<in>set []. \<not> hasKey q ''file''" by simp
  have enc: "Option.bind (Option.bind (parent (exTwoFiles, [2, 1])) parent) deref = Some exTwoFiles"
    by (simp add: parent_def deref_def)
  have v: "elementAt (children exFileProperty) 1 = Some (Node String (Some (JString ''foo:a.json'')) 9 12 None)"
    by (simp add: elementAt_def exFileProperty_def)
  from findProperty_first_occurrence [OF o c k1 e] first
  have a: "findProperty exRepeated ''k'' = Some exFirstK
     \<and> walkStep exRepeated ''k'' = Some (Node String (Some (JString ''k'')) 1 3 None)"
    by simp
  from findProperty_first_occurrence [OF o2 c2 f e2] enc v
  have b: "resolvePathDefinition (exHost exPairDoc (Some exPair)) (exTwoFiles, [2, 1]) ''1''
       = (case resolveVintageStoryPath (exHost exPairDoc (Some exPair)) ''foo:a.json'' of
            None \<Rightarrow> Inr None
          | Some targetUri \<Rightarrow> Inr (resolveInTarget (exHost exPairDoc (Some exPair)) targetUri ''1''))"
    by simp
  from k1 k2 a b show ?thesis by blast
qed

text \<open>
  Claim C6.  When a segment is applied to an object node one of whose properties has
  a key equal to the segment, character by character, the walk advances to the key
  node of the property that the lookup finds, the first child of that property, and
  not to its value node.  Walking \<^verbatim>\<open>0/ingredients\<close> in the tree of
  \<^verbatim>\<open>[{"ingredients": ["a","b"]}]\<close> gives the node of the key \<^verbatim>\<open>"ingredients"\<close>.
\<close>

theorem walkStep_object_key_node:
  assumes "ntype n = Object" and "children n = Some cs" and "p \<in> set cs" and "hasKey p part"
  shows "\<exists>q k ks. q \<in> set cs \<and> ntype q = Property \<and> children q = Some (k # ks)
           \<and> nvalue k = Some (JString part) \<and> findProperty n part = Some q
           \<and> walkStep n part = Some k"
proof -
  from assms(3,4) have "find (\<lambda>q. hasKey q part) cs \<noteq> None"
    by (auto simp: find_None_iff)
  then obtain q where fq: "find (\<lambda>q. hasKey q part) cs = Some q" by blast
  then have q: "q \<in> set cs" "hasKey q part"
    by (auto simp: find_Some_iff)
  from fq assms(1,2) have found: "findProperty n part = Some q"
    by (simp add: findProperty_find)
  from hasKey_children [OF q(2)] obtain k ks
    where k: "ntype q = Property" "children q = Some (k # ks)" "nvalue k = Some (JString part)"
    by blast
  from walkStep_object [OF assms(1) found k(2)] q(1) k found show ?thesis by blast
qed

theorem walkStep_object_key_node_witness:
  "hasKey (Node Property None 2 24 (Some [exIngredientsKey, exIngredientsValue])) ''ingredients''
   \<and> (\<exists>q k ks. q \<in> set [Node Property None 2 24 (Some [exIngredientsKey, exIngredientsValue])]
         \<and> ntype q = Property \<and> children q = Some (k # ks)
         \<and> nvalue k = Some (JString ''ingredients'')
         \<and> findProperty exRecipeObject ''ingredients'' = Some q
         \<and> walkStep exRecipeObject ''ingredients'' = Some k)
   \<and> walk (Some exRecipes) (pathParts ''0/ingredients'') = Some exIngredientsKey
   \<and> walk (Some exRecipes) (pathParts ''0/ingredients'') \<noteq> Some exIngredientsValue"
proof -
  have o: "ntype exRecipeObject = Object" by (simp add: exRecipeObject_def)
  have c: "children exRecipeObject
      = Some [Node Property None 2 24 (Some [exIngredientsKey, exIngredientsValue])]"
    by (simp add: exRecipeObject_def)
  have m: "Node Property None 2 24 (Some [exIngredientsKey, exIngredientsValue])
      \<in> set [Node Property None 2 24 (Some [exIngredientsKey, exIngredientsValue])]"
    by simp
  have k: "hasKey (Node Property None 2 24 (Some [exIngredientsKey, exIngredientsValue])) ''ingredients''"
    by (simp add: hasKey_def exIngredientsKey_def)
  have w: "walk (Some exRecipes) (pathParts ''0/ingredients'') = Some exIngredientsKey"
    by code_simp
  have d: "exIngredientsKey \<noteq> exIngredientsValue"
    by (simp add: exIngredientsKey_def exIngredientsValue_def)
  from walkStep_object_key_node [OF o c m k] k w d show ?thesis by simp
qed

text \<open>
  Claim C5, as the specification states it, fails: the segment \<^verbatim>\<open>2abc\<close> is no
  non-negative integer, yet applied to an array of three elements it selects the
  element at index 2.
\<close>

theorem walkStep_counterexample_mixed_segment:
  "walkStep exTriple ''2abc'' = Some (Node Number (Some (JNumber 3)) 5 1 None)
   \<and> walk (Some exTriple) (pathParts ''2abc'') = Some (Node Number (Some (JNumber 3)) 5 1 None)"
  by code_simp

text \<open>
  Claim C5, amended.  A segment applied to an array node succeeds exactly when
  \<^verbatim>\<open>parseInt\<close> of the segment is an integer \<open>i\<close> with \<open>0 \<le> i\<close> below the number of
  children, and then the walk advances to the child at index \<open>i\<close>; when the step fails,
  the whole pointer fails.  \<^verbatim>\<open>parseInt\<close> reads the longest leading numeral, so
  \<^verbatim>\<open>2abc\<close> selects index 2, while a negative number, a segment with no leading
  numeral and an index out of the bounds fail.
\<close>

theorem walkStep_array_index:
  assumes "ntype n = Array" and "children n = Some cs"
  shows "((\<exists>c. walkStep n part = Some c)
            \<longleftrightarrow> (\<exists>i. parseInt part = Some i \<and> 0 \<le> i \<and> i < int (length cs)))
         \<and> (\<forall>i. parseInt part = Some i \<and> 0 \<le> i \<and> i < int (length cs)
              \<longrightarrow> walkStep n part = Some (cs ! nat i))
         \<and> (walkStep n part = None \<longrightarrow> walk (Some n) (part # rest) = None)"
  using assms
  by (auto simp: walkStep_def elementAt_def walk_None split: option.splits)

theorem walkStep_array_index_witness:
  "parseInt ''2abc'' = Some 2 \<and> parseInt ''2'' = Some 2 \<and> parseInt ''-1'' = Some (- 1)
   \<and> parseInt ''abc'' = None \<and> parseInt ''3'' = Some 3
   \<and> walkStep exTriple ''2'' = Some (Node Number (Some (JNumber 3)) 5 1 None)
   \<and> walkStep exTriple ''2abc'' = Some (Node Number (Some (JNumber 3)) 5 1 None)
   \<and> walk (Some exTriple) [''-1'', ''0''] = None
   \<and> walk (Some exTriple) [''abc'', ''0''] = None
   \<and> walk (Some exTriple) [''3'', ''0''] = None"
proof -
  have a: "ntype exTriple = Array" by (simp add: exTriple_def)
  have c: "children exTriple
      = Some [Node Number (Some (JNumber 1)) 1 1 None, Node Number (Some (JNumber 2)) 3 1 None,
              Node Number (Some (JNumber 3)) 5 1 None]"
    by (simp add: exTriple_def)
  have p1: "parseInt ''2abc'' = Some 2" by code_simp
  have p2: "parseInt ''2'' = Some 2" by code_simp
  have p3: "parseInt ''-1'' = Some (- 1)" by code_simp
  have p4: "parseInt ''abc'' = None" by code_simp
  have p5: "parseInt ''3'' = Some 3" by code_simp
  note t = walkStep_array_index [OF a c]
  have s1: "walkStep exTriple ''2abc'' = Some (Node Number (Some (JNumber 3)) 5 1 None)"
    using t [of "''2abc''" "[]"] p1 by simp
  have s2: "walkStep exTriple ''2'' = Some (Node Number (Some (JNumber 3)) 5 1 None)"
    using t [of "''2''" "[]"] p2 by simp
  have s3: "walk (Some exTriple) [''-1'', ''0''] = None"
    using t [of "''-1''" "[''0'']"] p3 by (cases "walkStep exTriple ''-1''") auto
  have s4: "walk (Some exTriple) [''abc'', ''0''] = None"
    using t [of "''abc''" "[''0'']"] p4 by (cases "walkStep exTriple ''abc''") auto
  have s5: "walk (Some exTriple) [''3'', ''0''] = None"
    using t [of "''3''" "[''0'']"] p5 by (cases "walkStep exTriple ''3''") auto
  from p1 p2 p3 p4 p5 s1 s2 s3 s4 s5 show ?thesis by blast
qed

text \<open>
  Claim C9, as the specification states it, fails: walking \<^verbatim>\<open>/0/ingredients/0\<close> in
  the tree of \<^verbatim>\<open>[{"ingredients": ["a","b"]}]\<close> goes through an object key that is not
  the last segment and leaves no current node, and the location returned is the empty
  range at line 0, character 0, not the range of the root node, which ends at
  character 28.
\<close>

theorem walk_counterexample_root_fallback:
  "walk (Some exRecipes) (pathParts ''/0/ingredients/0'') = None
   \<and> resolveInTarget (exHost exRecipesDoc (Some exRecipes)) ''/ws/foo/assets/foo/a.json''
        ''/0/ingredients/0''
       = Some (Location ''/ws/foo/assets/foo/a.json'' (Range (Position 0 0) (Position 0 0)))
   \<and> Range (positionAt exRecipesDoc (offset exRecipes))
            (positionAt exRecipesDoc (offset exRecipes + nlength exRecipes))
       = Range (Position 0 0) (Position 0 28)"
  by code_simp

text \<open>
  Claim C9, amended.  A segment applied to an object node that is not the last segment
  makes the whole walk fail: the object step either fails or advances to the key node
  of a property, which is a string node in the trees of the parser, and the next
  segment then meets the branch of the nodes that are neither arrays nor objects.  The
  walk ends with no current node, and the resolution returns the location at line 0,
  character 0 of the target file, an empty range and not the range of the root node,
  whatever the value of the property is.
\<close>

theorem walk_object_key_not_last:
  assumes "walk (Some tree) pre = Some n"
    and "ntype n = Object"
    and "children n = Some cs"
    and "\<forall>p\<in>set cs. \<forall>k ks. ntype p = Property \<and> children p = Some (k # ks) \<longrightarrow> ntype k = String"
    and "rest \<noteq> []"
  shows "walk (Some tree) (pre @ part # rest) = None
         \<and> (\<forall>h targetUri doc jsonPointer.
               openTextDocument h targetUri = Inr doc
               \<and> parseTree h (getText doc) = Some tree
               \<and> pathParts jsonPointer = pre @ part # rest
               \<longrightarrow> resolveInTarget h targetUri jsonPointer
                     = Some (Location targetUri (Range (Position 0 0) (Position 0 0))))"
proof -
  from assms(5) obtain r rs where rest: "rest = r # rs" by (cases rest) auto
  have after: "walk (walkStep n part) rest = None"
  proof (cases "walkStep n part")
    case None
    then show ?thesis by (simp add: walk_None)
  next
    case (Some k)
    from walkStep_object_result [OF assms(2,3) Some] assms(4) have "ntype k = String"
      by blast
    then have "walkStep k r = None" by (simp add: walkStep_scalar)
    with Some rest show ?thesis by (simp add: walk_None)
  qed
  have w: "walk (Some tree) (pre @ part # rest) = None"
    using assms(1) after by (simp add: walk_append)
  then show ?thesis
    by (auto intro: resolveInTarget_fallback)
qed

theorem walk_object_key_not_last_witness:
  "walk (Some exRecipes) [''0''] = Some exRecipeObject
   \<and> pathParts ''/0/ingredients/0'' = [''0''] @ ''ingredients'' # [''0'']
   \<and> walk (Some exRecipes) ([''0''] @ ''ingredients'' # [''0'']) = None
   \<and> walk (Some exIngredientsValue) [''0''] = Some (Node String (Some (JString ''a'')) 18 3 None)
   \<and> resolveInTarget (exHost exRecipesDoc (Some exRecipes)) ''/ws/foo/assets/foo/a.json''
        ''/0/ingredients/0''
       = Some (Location ''/ws/foo/assets/foo/a.json'' (Range (Position 0 0) (Position 0 0)))"
proof -
  let ?h = "exHost exRecipesDoc (Some exRecipes)"
  have a1: "walk (Some exRecipes) [''0''] = Some exRecipeObject" by code_simp
  have a2: "ntype exRecipeObject = Object" by (simp add: exRecipeObject_def)
  have a3: "children exRecipeObject
      = Some [Node Property None 2 24 (Some [exIngredientsKey, exIngredientsValue])]"
    by (simp add: exRecipeObject_def)
  have a4: "\<forall>p\<in>set [Node Property None 2 24 (Some [exIngredientsKey, exIngredientsValue])].
      \<forall>k ks. ntype p = Property \<and> children p = Some (k # ks) \<longrightarrow> ntype k = String"
    by (simp add: exIngredientsKey_def)
  have a5: "[''0''] \<noteq> []" by simp
  have parts: "pathParts ''/0/ingredients/0'' = [''0''] @ ''ingredients'' # [''0'']"
    by (simp add: pathParts_def)
  have v: "walk (Some exIngredientsValue) [''0''] = Some (Node String (Some (JString ''a'')) 18 3 None)"
    by code_simp
  have d: "openTextDocument ?h ''/ws/foo/assets/foo/a.json'' = Inr exRecipesDoc
      \<and> parseTree ?h (getText exRecipesDoc) = Some exRecipes"
    by (simp add: exHost_def)
  note t = walk_object_key_not_last [OF a1 a2 a3 a4 a5, of "''ingredients''"]
  from t have w: "walk (Some exRecipes) ([''0''] @ ''ingredients'' # [''0'']) = None" by blast
  from t d parts
  have l: "resolveInTarget ?h ''/ws/foo/assets/foo/a.json'' ''/0/ingredients/0''
       = Some (Location ''/ws/foo/assets/foo/a.json'' (Range (Position 0 0) (Position 0 0)))"
    by blast
  from a1 parts w v l show ?thesis by blast
qed

section \<open>Properties of the resolution of a path property\<close>

text \<open>
  Claim C1, as the specification states it, fails: walking \<^verbatim>\<open>5\<close> in the tree of
  \<^verbatim>\<open>[1,2]\<close> leaves no current node, and the location returned is the empty range
  at line 0, character 0, not the range of the root node, which ends at character 5.
\<close>

theorem resolvePathDefinition_counterexample_root_range:
  "walk (Some exPair) (pathParts ''5'') = None
   \<and> resolvePathDefinition (exHost exPairDoc (Some exPair)) (exReferring, [1, 1]) ''5''
       = Inr (Some (Location ''/ws/foo/assets/foo/a.json'' (Range (Position 0 0) (Position 0 0))))
   \<and> Range (positionAt exPairDoc (offset exPair))
            (positionAt exPairDoc (offset exPair + nlength exPair))
       = Range (Position 0 0) (Position 0 5)"
  by code_simp

text \<open>
  Claim C1, amended.  When a segment of the pointer fails at the node the walk has
  reached (an array index that does not parse or is out of the bounds, a key that the
  object does not have, or any segment at a node that is neither array nor object), the
  walk ends with no current node, and the resolution returns the location at line 0,
  character 0 of the target file, an empty range, whatever the offset and length of
  the root node are.
\<close>

theorem resolvePathDefinition_walk_failure:
  assumes "Option.bind (Option.bind (parent pathNode) parent) deref = Some parentNode"
    and "ntype parentNode = Object"
    and "findProperty parentNode ''file'' = Some fileProperty"
    and "elementAt (children fileProperty) 1 = Some fileValueNode"
    and "ntype fileValueNode = String"
    and "nvalue fileValueNode = Some (JString fileString)"
    and "resolveVintageStoryPath h fileString = Some targetUri"
    and "openTextDocument h targetUri = Inr doc"
    and "parseTree h (getText doc) = Some tree"
    and "pathParts jsonPointer = pre @ part # rest"
    and "walk (Some tree) pre = Some n"
    and "walkStep n part = None"
  shows "walk (Some tree) (pathParts jsonPointer) = None
         \<and> resolvePathDefinition h pathNode jsonPointer
             = Inr (Some (Location targetUri (Range (Position 0 0) (Position 0 0))))
         \<and> (if ntype n = Array then
              parseInt part = None \<or> children n = None
              \<or> (\<exists>i. parseInt part = Some i \<and> (i < 0 \<or> int (length (the (children n))) \<le> i))
            else if ntype n = Object then findProperty n part = None
            else True)"
proof -
  have w: "walk (Some tree) (pathParts jsonPointer) = None"
    using assms(10) walk_fails_at [OF assms(11,12)] by simp
  have r: "resolvePathDefinition h pathNode jsonPointer
             = Inr (Some (Location targetUri (Range (Position 0 0) (Position 0 0))))"
    using resolvePathDefinition_sibling [OF assms(1-6), of h jsonPointer]
      resolveInTarget_fallback [OF assms(8,9) w] assms(7)
    by simp
  from w r assms(12) show ?thesis
    by (simp only: walkStep_None_iff simp_thms)
qed

theorem resolvePathDefinition_walk_failure_witness:
  "pathParts ''5'' = [] @ ''5'' # []
   \<and> walkStep exPair ''5'' = None
   \<and> walk (Some exPair) (pathParts ''5'') = None
   \<and> resolvePathDefinition (exHost exPairDoc (Some exPair)) (exReferring, [1, 1]) ''5''
       = Inr (Some (Location ''/ws/foo/assets/foo/a.json'' (Range (Position 0 0) (Position 0 0))))
   \<and> parseInt ''5'' = Some 5 \<and> int (length (the (children exPair))) \<le> 5"
proof -
  let ?h = "exHost exPairDoc (Some exPair)"
  have h1: "Option.bind (Option.bind (parent (exReferring, [1, 1])) parent) deref = Some exReferring"
    by (simp add: parent_def deref_def)
  have h2: "ntype exReferring = Object" by (simp add: exReferring_def)
  have h3: "findProperty exReferring ''file'' = Some exFileProperty" by code_simp
  have h4: "elementAt (children exFileProperty) 1
      = Some (Node String (Some (JString ''foo:a.json'')) 9 12 None)"
    by (simp add: elementAt_def exFileProperty_def)
  have h5: "ntype (Node String (Some (JString ''foo:a.json'')) 9 12 None) = String" by simp
  have h6: "nvalue (Node String (Some (JString ''foo:a.json'')) 9 12 None)
      = Some (JString ''foo:a.json'')" by simp
  have h7: "resolveVintageStoryPath ?h ''foo:a.json'' = Some ''/ws/foo/assets/foo/a.json''"
    by code_simp
  have h8: "openTextDocument ?h ''/ws/foo/assets/foo/a.json'' = Inr exPairDoc"
    by (simp add: exHost_def)
  have h9: "parseTree ?h (getText exPairDoc) = Some exPair"
    by (simp add: exHost_def)
  have h10: "pathParts ''5'' = [] @ ''5'' # []" by (simp add: pathParts_def)
  have h11: "walk (Some exPair) [] = Some exPair" by simp
  have h12: "walkStep exPair ''5'' = None" by code_simp
  have p: "parseInt ''5'' = Some 5" by code_simp
  have l: "int (length (the (children exPair))) \<le> 5" by (simp add: exPair_def)
  from resolvePathDefinition_walk_failure [OF h1 h2 h3 h4 h5 h6 h7 h8 h9 h10 h11 h12]
    h10 h12 p l
  show ?thesis by simp
qed

text \<open>
  Claim C2, as the specification states it, fails: for a target file whose text does
  not parse into a tree, the resolution returns a location, at the top of that file.
\<close>

theorem resolvePathDefinition_counterexample_no_tree:
  "parseTree (exHost exEmptyDoc None) (getText exEmptyDoc) = None
   \<and> resolvePathDefinition (exHost exEmptyDoc None) (exReferring, [1, 1]) ''5''
       = Inr (Some (Location ''/ws/foo/assets/foo/a.json'' (Range (Position 0 0) (Position 0 0))))"
  by code_simp

text \<open>
  Claim C2, amended.  For a \<^verbatim>\<open>path\<close> property inside an object, the resolution
  returns no location when the object has no sibling property \<^verbatim>\<open>file\<close>, when the
  string of the sibling resolves to no existing file, and when opening the target
  document throws; when the text of the target does not parse into a tree, it returns
  the location at line 0, character 0 of the target file.
\<close>

theorem resolvePathDefinition_silent_failures:
  assumes "Option.bind (Option.bind (parent pathNode) parent) deref = Some parentNode"
    and "ntype parentNode = Object"
  shows "(findProperty parentNode ''file'' = None
            \<longrightarrow> resolvePathDefinition h pathNode jsonPointer = Inr None)
         \<and> (\<forall>fileProperty fileValueNode fileString.
               findProperty parentNode ''file'' = Some fileProperty
               \<and> elementAt (children fileProperty) 1 = Some fileValueNode
               \<and> ntype fileValueNode = String
               \<and> nvalue fileValueNode = Some (JString fileString)
               \<longrightarrow> (resolveVintageStoryPath h fileString = None
                      \<longrightarrow> resolvePathDefinition h pathNode jsonPointer = Inr None)
                   \<and> (\<forall>targetUri. resolveVintageStoryPath h fileString = Some targetUri
                         \<longrightarrow> (\<forall>e. openTextDocument h targetUri = Inl e
                                 \<longrightarrow> resolvePathDefinition h pathNode jsonPointer = Inr None)
                             \<and> (\<forall>doc. openTextDocument h targetUri = Inr doc
                                       \<and> parseTree h (getText doc) = None
                                 \<longrightarrow> resolvePathDefinition h pathNode jsonPointer
                                       = Inr (Some (Location targetUri
                                                     (Range (Position 0 0) (Position 0 0)))))))"
proof (intro conjI allI impI)
  assume "findProperty parentNode ''file'' = None"
  with assms show "resolvePathDefinition h pathNode jsonPointer = Inr None"
    by (simp add: resolvePathDefinition_def)
next
  fix fileProperty fileValueNode fileString
  assume s: "findProperty parentNode ''file'' = Some fileProperty
               \<and> elementAt (children fileProperty) 1 = Some fileValueNode
               \<and> ntype fileValueNode = String
               \<and> nvalue fileValueNode = Some (JString fileString)"
    and "resolveVintageStoryPath h fileString = None"
  with assms show "resolvePathDefinition h pathNode jsonPointer = Inr None"
    by (simp add: resolvePathDefinition_sibling [where fileProperty = fileProperty])
next
  fix fileProperty fileValueNode fileString targetUri e
  assume s: "findProperty parentNode ''file'' = Some fileProperty
               \<and> elementAt (children fileProperty) 1 = Some fileValueNode
               \<and> ntype fileValueNode = String
               \<and> nvalue fileValueNode = Some (JString fileString)"
    and "resolveVintageStoryPath h fileString = Some targetUri"
    and "openTextDocument h targetUri = Inl e"
  with assms show "resolvePathDefinition h pathNode jsonPointer = Inr None"
    by (simp add: resolvePathDefinition_sibling [where fileProperty = fileProperty]
          resolveInTarget_def)
next
  fix fileProperty fileValueNode fileString targetUri doc
  assume s: "findProperty parentNode ''file'' = Some fileProperty
               \<and> elementAt (children fileProperty) 1 = Some fileValueNode
               \<and> ntype fileValueNode = String
               \<and> nvalue fileValueNode = Some (JString fileString)"
    and "resolveVintageStoryPath h fileString = Some targetUri"
    and "openTextDocument h targetUri = Inr doc \<and> parseTree h (getText doc) = None"
  with assms show "resolvePathDefinition h pathNode jsonPointer
      = Inr (Some (Location targetUri (Range (Position 0 0) (Position 0 0))))"
    by (simp add: resolvePathDefinition_sibling [where fileProperty = fileProperty]
          resolveInTarget_def locationAt_def)
qed

theorem resolvePathDefinition_silent_failures_witness:
  "findProperty exNoFile ''file'' = None
   \<and> resolvePathDefinition (exHost exPairDoc (Some exPair)) (exNoFile, [0, 1]) ''5'' = Inr None
   \<and> resolveVintageStoryPath exTwoVersions ''foo:a.json'' = None
   \<and> resolvePathDefinition exTwoVersions (exReferring, [1, 1]) ''5'' = Inr None
   \<and> resolvePathDefinition
        ((exHost exPairDoc (Some exPair))\<lparr>openTextDocument := (\<lambda>u. Inl HostError)\<rparr>)
        (exReferring, [1, 1]) ''5'' = Inr None
   \<and> resolvePathDefinition (exHost exEmptyDoc None) (exReferring, [1, 1]) ''5''
       = Inr (Some (Location ''/ws/foo/assets/foo/a.json'' (Range (Position 0 0) (Position 0 0))))"
proof -
  let ?v = "Node String (Some (JString ''foo:a.json'')) 9 12 None"
  let ?throwing = "(exHost exPairDoc (Some exPair))\<lparr>openTextDocument := (\<lambda>u. Inl HostError)\<rparr>"
  have e1: "Option.bind (Option.bind (parent (exNoFile, [0, 1])) parent) deref = Some exNoFile"
    by (simp add: parent_def deref_def)
  have o1: "ntype exNoFile = Object" by (simp add: exNoFile_def)
  have n1: "findProperty exNoFile ''file'' = None" by code_simp
  have e2: "Option.bind (Option.bind (parent (exReferring, [1, 1])) parent) deref = Some exReferring"
    by (simp add: parent_def deref_def)
  have o2: "ntype exReferring = Object" by (simp add: exReferring_def)
  have f: "findProperty exReferring ''file'' = Some exFileProperty
      \<and> elementAt (children exFileProperty) 1 = Some ?v
      \<and> ntype ?v = String \<and> nvalue ?v = Some (JString ''foo:a.json'')"
    by code_simp
  have r2: "resolveVintageStoryPath exTwoVersions ''foo:a.json'' = None" by code_simp
  have r3: "resolveVintageStoryPath ?throwing ''foo:a.json'' = Some ''/ws/foo/assets/foo/a.json''"
    by code_simp
  have t3: "openTextDocument ?throwing ''/ws/foo/assets/foo/a.json'' = Inl HostError"
    by simp
  have r4: "resolveVintageStoryPath (exHost exEmptyDoc None) ''foo:a.json''
      = Some ''/ws/foo/assets/foo/a.json''"
    by code_simp
  have t4: "openTextDocument (exHost exEmptyDoc None) ''/ws/foo/assets/foo/a.json'' = Inr exEmptyDoc
      \<and> parseTree (exHost exEmptyDoc None) (getText exEmptyDoc) = None"
    by (simp add: exHost_def)
  from resolvePathDefinition_silent_failures
         [OF e1 o1, of "exHost exPairDoc (Some exPair)" "''5''"] n1
  have a: "resolvePathDefinition (exHost exPairDoc (Some exPair)) (exNoFile, [0, 1]) ''5'' = Inr None"
    by blast
  from resolvePathDefinition_silent_failures [OF e2 o2, of exTwoVersions "''5''"] f r2
  have b: "resolvePathDefinition exTwoVersions (exReferring, [1, 1]) ''5'' = Inr None"
    by blast
  from resolvePathDefinition_silent_failures [OF e2 o2, of ?throwing "''5''"] f r3 t3
  have c: "resolvePathDefinition ?throwing (exReferring, [1, 1]) ''5'' = Inr None"
    by blast
  from resolvePathDefinition_silent_failures [OF e2 o2, of "exHost exEmptyDoc None" "''5''"] f r4 t4
  have d: "resolvePathDefinition (exHost exEmptyDoc None) (exReferring, [1, 1]) ''5''
       = Inr (Some (Location ''/ws/foo/assets/foo/a.json'' (Range (Position 0 0) (Position 0 0))))"
    by blast
  from n1 a r2 b c d show ?thesis by blast
qed

end
